theory Spec2Isabelle
  imports Complex_Main
begin

section \<open>The batch analysis service of AegisShield\<close>

text \<open>
  A shallow embedding of \<^verbatim>\<open>services/batch-analysis/src/main.py\<close>: the request and
  result models, the body of \<^verbatim>\<open>BatchAnalysisService.analyze_suspicious_patterns\<close>
  (transaction query, empty-frame return, the three detection rules, the overall risk
  score, the recommendations and the result envelope), the template network analysis and
  the endpoint \<^verbatim>\<open>run_batch_analysis\<close>.

  Conventions of the embedding.
  \<^item> Python and numpy floats are modelled by exact real numbers (\<^typ>\<open>real\<close>): every
    comparison and every arithmetic operation is the exact one, and \<^verbatim>\<open>round\<close> is
    rounding to the nearest decimal with ties to the even digit. Non-finite amounts are
    outside the model.
  \<^item> An instant (a transaction's timestamp after \<^verbatim>\<open>pd.to_datetime\<close>, the request's
    dates) is an integer number of nanoseconds since the epoch, the representation of
    pandas' \<^verbatim>\<open>datetime64[ns]\<close>.
  \<^item> An exception is a value: the function returns \<open>Inl\<close> of the HTTP exception it
    raises, \<open>Inr\<close> of the result otherwise.
  \<^item> The two readings of \<^verbatim>\<open>datetime.utcnow()\<close> are inputs of the function.
  \<^item> The data frame built from the fetched rows is the list of these rows, with the
    columns of the query under their names.
\<close>

subsection \<open>Data model\<close>

text \<open>
  A row of the query: the columns of \<^verbatim>\<open>transactions\<close> the analysis reads. The
  identifiers are text; \<^verbatim>\<open>str(entity)\<close> is then the identity.
\<close>

record transaction =
  sender_id :: string
  receiver_id :: string
  amount :: real
  timestamp :: int

text \<open>\<^verbatim>\<open>class BatchAnalysisRequest(BaseModel)\<close>\<close>

record batch_analysis_request =
  start_date :: int
  end_date :: int
  analysis_type :: string
  entity_types :: "string list option"
  threshold_amount :: "real option"
  confidence_threshold :: "real option"

text \<open>
  The only constraint the request model declares beside the field types: the regular
  expression of \<^verbatim>\<open>analysis_type\<close>.
\<close>

definition analysis_type_regex :: "string \<Rightarrow> bool" where
  "analysis_type_regex s \<longleftrightarrow>
     s \<in> set [''suspicious_patterns'', ''network_analysis'', ''anomaly_detection'',
              ''compliance_check'']"

text \<open>
  A pattern is a Python dictionary with the keys \<^verbatim>\<open>type\<close>, \<^verbatim>\<open>count\<close>,
  \<^verbatim>\<open>risk_score\<close>, \<^verbatim>\<open>description\<close> and, for some types, \<^verbatim>\<open>entity_id\<close> or
  \<^verbatim>\<open>percentage\<close>; an absent key is \<open>None\<close>. Every dictionary the service builds has
  the key \<^verbatim>\<open>risk_score\<close>, so the default of \<^verbatim>\<open>p.get('risk_score', 0)\<close> is never taken.
\<close>

record pattern =
  p_type :: string
  p_entity_id :: "string option"
  p_count :: nat
  p_percentage :: "real option"
  p_risk_score :: real
  p_description :: string

text \<open>A reading of \<^verbatim>\<open>datetime.utcnow()\<close>: the calendar fields of the datetime object.\<close>

record datetime =
  year :: nat
  month :: nat
  day :: nat
  hour :: nat
  minute :: nat
  second :: nat
  microsecond :: nat

text \<open>\<^verbatim>\<open>class BatchAnalysisResult(BaseModel)\<close>\<close>

record batch_analysis_result =
  analysis_id :: string
  res_analysis_type :: string
  res_start_date :: int
  res_end_date :: int
  total_entities :: nat
  flagged_entities :: nat
  suspicious_transactions :: nat
  risk_score :: real
  patterns_detected :: "pattern list"
  recommendations :: "string list"
  created_at :: datetime

datatype http_exception = HTTPException nat string

subsection \<open>Library functions\<close>

text \<open>\<^verbatim>\<open>str\<close> of a natural number, as an f-string prints a count.\<close>

definition digit :: "nat \<Rightarrow> char" where
  "digit d = ''0123456789'' ! d"

function str_nat :: "nat \<Rightarrow> string" where
  "str_nat n = (if n < 10 then [digit n] else str_nat (n div 10) @ [digit (n mod 10)])"
  by pat_completeness auto
termination
  by (relation "measure (\<lambda>n. n)") auto

declare str_nat.simps [simp del]

text \<open>\<^verbatim>\<open>%Y\<close> pads to four digits, \<^verbatim>\<open>%m %d %H %M %S\<close> to two.\<close>

definition zero_pad :: "nat \<Rightarrow> string \<Rightarrow> string" where
  "zero_pad w s = replicate (w - length s) (CHR ''0'') @ s"

definition strftime :: "datetime \<Rightarrow> string" where
  "strftime d =
     zero_pad 4 (str_nat (year d)) @ zero_pad 2 (str_nat (month d)) @
     zero_pad 2 (str_nat (day d)) @ ''_'' @ zero_pad 2 (str_nat (hour d)) @
     zero_pad 2 (str_nat (minute d)) @ zero_pad 2 (str_nat (second d))"

text \<open>
  \<^verbatim>\<open>round(x, ndigits)\<close>: the nearest multiple of \<open>10 ^ -ndigits\<close>, a tie going to the
  even multiple.
\<close>

definition round_half_even :: "real \<Rightarrow> int" where
  "round_half_even y =
     (let f = \<lfloor>y\<rfloor>; r = y - of_int f
      in if r < 1 / 2 then f
         else if 1 / 2 < r then f + 1
         else if even f then f else f + 1)"

definition py_round :: "real \<Rightarrow> nat \<Rightarrow> real" where
  "py_round x ndigits = of_int (round_half_even (x * 10 ^ ndigits)) / 10 ^ ndigits"

text \<open>\<^verbatim>\<open>a % b\<close> for a positive divisor: the remainder of the floored division.\<close>

definition py_mod :: "real \<Rightarrow> real \<Rightarrow> real" where
  "py_mod a b = a - b * of_int \<lfloor>a / b\<rfloor>"

text \<open>\<^verbatim>\<open>np.mean\<close> of a non-empty list.\<close>

definition np_mean :: "real list \<Rightarrow> real" where
  "np_mean xs = sum_list xs / of_nat (length xs)"

text \<open>
  \<^verbatim>\<open>DataFrame.sort_values('timestamp')\<close>: the rows in ascending order of the timestamp.
  Rows of equal timestamp keep their order here; the proofs below use only that the
  result is a sorted rearrangement of the frame.
\<close>

definition sort_values :: "transaction list \<Rightarrow> transaction list" where
  "sort_values df = sort_key timestamp df"

text \<open>
  \<^verbatim>\<open>Series.unique()\<close>: the distinct values in the order of their first appearance; the
  hash table of the values seen so far is the first argument.
\<close>

fun unique_from :: "'a list \<Rightarrow> 'a list \<Rightarrow> 'a list" where
  "unique_from seen [] = []"
| "unique_from seen (x # xs) =
     (if x \<in> set seen then unique_from seen xs else x # unique_from (x # seen) xs)"

definition unique :: "'a list \<Rightarrow> 'a list" where
  "unique xs = unique_from [] xs"

text \<open>
  \<^verbatim>\<open>Series.diff()\<close> on a column of timestamps: the first entry is \<^verbatim>\<open>NaT\<close>, every other
  one the difference to the entry before it. \<^verbatim>\<open>.dt.total_seconds()\<close> turns a difference
  into seconds and \<^verbatim>\<open>NaT\<close> into \<^verbatim>\<open>NaN\<close>, and \<^verbatim>\<open>NaN < 300\<close> is false.
\<close>

fun diff_from :: "int \<Rightarrow> int list \<Rightarrow> int option list" where
  "diff_from prev [] = []"
| "diff_from prev (x # xs) = Some (x - prev) # diff_from x xs"

fun diff :: "int list \<Rightarrow> int option list" where
  "diff [] = []"
| "diff (x # xs) = None # diff_from x xs"

definition total_seconds :: "int option \<Rightarrow> real option" where
  "total_seconds d = map_option (\<lambda>ns. of_int ns / 10 ^ 9) d"

definition lt_300 :: "real option \<Rightarrow> bool" where
  "lt_300 d = (case d of None \<Rightarrow> False | Some s \<Rightarrow> s < 300)"

subsection \<open>The service\<close>

text \<open>
  The query of \<^verbatim>\<open>analyze_suspicious_patterns\<close> over the joined rows of the store:
  \<^verbatim>\<open>t.timestamp BETWEEN :start_date AND :end_date\<close> (both bounds inclusive)
  \<^verbatim>\<open>AND (:threshold_amount IS NULL OR t.amount >= :threshold_amount)\<close>.
\<close>

definition execute_query ::
  "transaction list \<Rightarrow> batch_analysis_request \<Rightarrow> transaction list" where
  "execute_query rows request =
     filter (\<lambda>t. (start_date request \<le> timestamp t \<and> timestamp t \<le> end_date request) \<and>
                 (case threshold_amount request of
                    None \<Rightarrow> True
                  | Some a \<Rightarrow> a \<le> amount t)) rows"

text \<open>
  Rule 1. The body of the loop \<^verbatim>\<open>for entity in df['sender_id'].unique()\<close> on the
  frame (already sorted), one entity and the list \<^verbatim>\<open>patterns\<close> built so far; then the
  loop over the entities.
\<close>

definition rapid_succession_body ::
  "transaction list \<Rightarrow> string \<Rightarrow> pattern list \<Rightarrow> pattern list" where
  "rapid_succession_body df entity patterns =
     (let entity_txns = filter (\<lambda>t. sender_id t = entity) df
      in if 5 \<le> length entity_txns then
           (let time_diffs = map total_seconds (diff (map timestamp entity_txns));
                rapid_transactions = length (filter lt_300 time_diffs)
            in if 3 \<le> rapid_transactions then
                 patterns @
                 [\<lparr>p_type = ''rapid_succession'',
                   p_entity_id = Some entity,
                   p_count = rapid_transactions,
                   p_percentage = None,
                   p_risk_score = min 0.9 (of_nat rapid_transactions * 0.2),
                   p_description =
                     ''Entity made '' @ str_nat rapid_transactions @
                     '' transactions within 5-minute windows''\<rparr>]
               else patterns)
         else patterns)"

fun rapid_succession_loop ::
  "transaction list \<Rightarrow> string list \<Rightarrow> pattern list \<Rightarrow> pattern list" where
  "rapid_succession_loop df [] patterns = patterns"
| "rapid_succession_loop df (entity # rest) patterns =
     rapid_succession_loop df rest (rapid_succession_body df entity patterns)"

text \<open>Rule 2: \<^verbatim>\<open>round_amounts = df[df['amount'] % 1000 == 0]\<close> and its test.\<close>

definition round_number_bias :: "transaction list \<Rightarrow> pattern list \<Rightarrow> pattern list" where
  "round_number_bias df patterns =
     (let round_amounts = filter (\<lambda>t. py_mod (amount t) 1000 = 0) df
      in if of_nat (length df) * 0.1 < (of_nat (length round_amounts) :: real) then
           patterns @
           [\<lparr>p_type = ''round_number_bias'',
             p_entity_id = None,
             p_count = length round_amounts,
             p_percentage =
               Some (py_round (of_nat (length round_amounts) / of_nat (length df) * 100) 2),
             p_risk_score = 0.6,
             p_description =
               str_nat (length round_amounts) @
               '' transactions with round amounts detected''\<rparr>]
         else patterns)"

text \<open>Rule 3: amounts just below the reporting threshold.\<close>

definition structuring_threshold :: nat where
  "structuring_threshold = 10000"

definition structuring_detection :: "transaction list \<Rightarrow> pattern list \<Rightarrow> pattern list" where
  "structuring_detection df patterns =
     (let near_threshold =
            filter (\<lambda>t. of_nat structuring_threshold * 0.9 \<le> amount t \<and>
                        amount t < of_nat structuring_threshold) df
      in if 0 < length near_threshold then
           patterns @
           [\<lparr>p_type = ''potential_structuring'',
             p_entity_id = None,
             p_count = length near_threshold,
             p_percentage = None,
             p_risk_score = 0.8,
             p_description =
               str_nat (length near_threshold) @ '' transactions just below $'' @
               str_nat structuring_threshold @ '' threshold''\<rparr>]
         else patterns)"

text \<open>
  The block \<^verbatim>\<open># Pattern detection algorithms\<close>, from \<^verbatim>\<open>patterns = []\<close> to the last
  rule, on the non-empty frame of the fetched rows. The sorted frame replaces \<^verbatim>\<open>df\<close>
  for all three rules, as the assignment \<^verbatim>\<open>df = df.sort_values('timestamp')\<close> does.
\<close>

definition detect_patterns :: "transaction list \<Rightarrow> pattern list" where
  "detect_patterns transactions =
     (let df = sort_values transactions;
          patterns = rapid_succession_loop df (unique (map sender_id df)) [];
          patterns = round_number_bias df patterns;
          patterns = structuring_detection df patterns
      in patterns)"

text \<open>\<^verbatim>\<open># Calculate overall risk score\<close>\<close>

definition calculate_overall_risk :: "pattern list \<Rightarrow> real" where
  "calculate_overall_risk patterns =
     (let risk_scores = map p_risk_score patterns
      in if risk_scores \<noteq> [] then np_mean risk_scores else 0)"

text \<open>\<^verbatim>\<open># Generate recommendations\<close>\<close>

definition generate_recommendations :: "real \<Rightarrow> pattern list \<Rightarrow> string list" where
  "generate_recommendations overall_risk patterns =
     (let recommendations = [];
          recommendations =
            (if 0.7 < overall_risk then
               recommendations @ [''Immediate investigation recommended for high-risk patterns'']
             else if 0.5 < overall_risk then
               recommendations @ [''Enhanced monitoring suggested for identified entities'']
             else recommendations);
          recommendations =
            (if list_ex (\<lambda>p. p_type p = ''rapid_succession'') patterns then
               recommendations @ [''Review rapid transaction entities for potential automation'']
             else recommendations);
          recommendations =
            (if list_ex (\<lambda>p. p_type p = ''potential_structuring'') patterns then
               recommendations @ [''Investigate potential structuring activities'']
             else recommendations)
      in recommendations)"

text \<open>
  \<^verbatim>\<open>analyze_suspicious_patterns\<close>. The store is \<open>Inr\<close> of its joined rows, or \<open>Inl\<close> of
  the message of the exception that the session or the query raises; \<open>now1\<close> and
  \<open>now2\<close> are the readings of the clock for \<^verbatim>\<open>analysis_id\<close> and \<^verbatim>\<open>created_at\<close>. The
  handler \<^verbatim>\<open>except Exception\<close> turns the exception into an HTTP 500.
\<close>

definition analyze_suspicious_patterns ::
  "string + transaction list \<Rightarrow> batch_analysis_request \<Rightarrow> datetime \<Rightarrow> datetime \<Rightarrow>
   http_exception + batch_analysis_result" where
  "analyze_suspicious_patterns store request now1 now2 =
     (case store of
        Inl e \<Rightarrow> Inl (HTTPException 500 (''Analysis failed: '' @ e))
      | Inr rows \<Rightarrow>
          (let df = execute_query rows request
           in if df = [] then
                Inr \<lparr>analysis_id = ''batch_'' @ strftime now1,
                     res_analysis_type = ''suspicious_patterns'',
                     res_start_date = start_date request,
                     res_end_date = end_date request,
                     total_entities = 0,
                     flagged_entities = 0,
                     suspicious_transactions = 0,
                     risk_score = 0,
                     patterns_detected = [],
                     recommendations = [],
                     created_at = now2\<rparr>
              else
                (let patterns = detect_patterns df;
                     overall_risk = calculate_overall_risk patterns;
                     recommendations = generate_recommendations overall_risk patterns
                 in Inr \<lparr>analysis_id = ''batch_'' @ strftime now1,
                         res_analysis_type = ''suspicious_patterns'',
                         res_start_date = start_date request,
                         res_end_date = end_date request,
                         total_entities = length (unique (map sender_id df)),
                         flagged_entities =
                           card (set (map p_entity_id
                                        (filter (\<lambda>p. p_entity_id p \<noteq> None) patterns))),
                         suspicious_transactions = length df,
                         risk_score = py_round overall_risk 3,
                         patterns_detected = patterns,
                         recommendations = recommendations,
                         created_at = now2\<rparr>)))"

text \<open>\<^verbatim>\<open>analyze_network_patterns\<close>: the template result.\<close>

definition analyze_network_patterns ::
  "batch_analysis_request \<Rightarrow> datetime \<Rightarrow> datetime \<Rightarrow> batch_analysis_result" where
  "analyze_network_patterns request now1 now2 =
     \<lparr>analysis_id = ''network_'' @ strftime now1,
      res_analysis_type = ''network_analysis'',
      res_start_date = start_date request,
      res_end_date = end_date request,
      total_entities = 1000,
      flagged_entities = 18,
      suspicious_transactions = 45,
      risk_score = 0.75,
      patterns_detected =
        [\<lparr>p_type = ''high_centrality_nodes'', p_entity_id = None, p_count = 15,
          p_percentage = None, p_risk_score = 0.7,
          p_description = ''Entities with unusually high connectivity''\<rparr>,
         \<lparr>p_type = ''circular_transactions'', p_entity_id = None, p_count = 3,
          p_percentage = None, p_risk_score = 0.9,
          p_description = ''Potential money laundering loops detected''\<rparr>],
      recommendations =
        [''Investigate high-centrality entities for hub activity'',
         ''Analyze circular transaction patterns for money laundering''],
      created_at = now2\<rparr>"

text \<open>
  The endpoint \<^verbatim>\<open>POST /analysis/batch\<close>, on a request that the request model has
  accepted.
\<close>

definition run_batch_analysis ::
  "string + transaction list \<Rightarrow> batch_analysis_request \<Rightarrow> datetime \<Rightarrow> datetime \<Rightarrow>
   http_exception + batch_analysis_result" where
  "run_batch_analysis store request now1 now2 =
     (if analysis_type request = ''suspicious_patterns'' then
        analyze_suspicious_patterns store request now1 now2
      else if analysis_type request = ''network_analysis'' then
        Inr (analyze_network_patterns request now1 now2)
      else
        Inl (HTTPException 400 (''Unsupported analysis type: '' @ analysis_type request)))"

subsection \<open>The rules in the words of the specification\<close>




subsection \<open>Concrete transaction sets\<close>



text \<open>A single transaction of a given amount.\<close>

definition one_of_amount :: "real \<Rightarrow> transaction list" where
  "one_of_amount a = [\<lparr>sender_id = ''S1'', receiver_id = ''R1'', amount = a, timestamp = 0\<rparr>]"


text \<open>
  Five transactions of one sender, 100 seconds apart, one of them of a round amount and
  one just below the threshold; a request whose range holds them; a reading of the clock.
\<close>

definition mixed_five :: "transaction list" where
  "mixed_five =
     [\<lparr>sender_id = ''S1'', receiver_id = ''R1'', amount = 1000, timestamp = 0\<rparr>,
      \<lparr>sender_id = ''S1'', receiver_id = ''R2'', amount = 9500, timestamp = 100 * 10 ^ 9\<rparr>,
      \<lparr>sender_id = ''S1'', receiver_id = ''R3'', amount = 250, timestamp = 200 * 10 ^ 9\<rparr>,
      \<lparr>sender_id = ''S1'', receiver_id = ''R4'', amount = 250, timestamp = 300 * 10 ^ 9\<rparr>,
      \<lparr>sender_id = ''S1'', receiver_id = ''R5'', amount = 250, timestamp = 400 * 10 ^ 9\<rparr>]"

definition request_of :: "int \<Rightarrow> int \<Rightarrow> batch_analysis_request" where
  "request_of s e =
     \<lparr>start_date = s, end_date = e, analysis_type = ''suspicious_patterns'',
      entity_types = None, threshold_amount = None, confidence_threshold = Some 0.8\<rparr>"

definition wide_request :: batch_analysis_request where
  "wide_request = request_of 0 (500 * 10 ^ 9)"

text \<open>A request whose range lies after every transaction above, and one whose end date
  is earlier than its start date.\<close>

definition late_request :: batch_analysis_request where
  "late_request = request_of (600 * 10 ^ 9) (700 * 10 ^ 9)"

definition inverted_request :: batch_analysis_request where
  "inverted_request = request_of (500 * 10 ^ 9) 0"

definition noon :: datetime where
  "noon = \<lparr>year = 2025, month = 1, day = 2, hour = 12, minute = 0, second = 0,
            microsecond = 0\<rparr>"

definition midnight :: datetime where
  "midnight = \<lparr>year = 2025, month = 1, day = 3, hour = 0, minute = 0, second = 0,
                microsecond = 0\<rparr>"

section \<open>Properties of the library functions and of the rules\<close>










lemma rapid_succession_body_append:
  "rapid_succession_body df e ps = ps @ rapid_succession_body df e []"
  by (simp add: rapid_succession_body_def Let_def)

lemma rapid_succession_loop_append:
  "rapid_succession_loop df es ps = ps @ rapid_succession_loop df es []"
proof (induction es arbitrary: ps)
  case Nil
  show ?case by simp
next
  case (Cons e es)
  show ?case
    using Cons.IH [of "rapid_succession_body df e ps"]
      Cons.IH [of "rapid_succession_body df e []"]
      rapid_succession_body_append [of df e ps]
    by simp
qed




lemma round_number_bias_append: "round_number_bias df ps = ps @ round_number_bias df []"
  by (simp add: round_number_bias_def Let_def)

lemma structuring_detection_append:
  "structuring_detection df ps = ps @ structuring_detection df []"
  by (simp add: structuring_detection_def Let_def)

lemma detect_patterns_split:
  "detect_patterns txns =
   rapid_succession_loop (sort_values txns) (unique (map sender_id (sort_values txns))) [] @
   round_number_bias (sort_values txns) [] @ structuring_detection (sort_values txns) []"
  unfolding detect_patterns_def Let_def
  by (subst structuring_detection_append, subst round_number_bias_append) simp

lemma rapid_succession_body_type:
  "p \<in> set (rapid_succession_body df e []) \<Longrightarrow>
   p_type p = ''rapid_succession'' \<and> p_entity_id p = Some e"
  by (auto simp: rapid_succession_body_def Let_def split: if_splits)

lemma rapid_succession_loop_type:
  "p \<in> set (rapid_succession_loop df es []) \<Longrightarrow>
   p_type p = ''rapid_succession'' \<and> (\<exists>e \<in> set es. p_entity_id p = Some e)"
proof (induction es)
  case Nil
  then show ?case by simp
next
  case (Cons e es)
  have "rapid_succession_loop df (e # es) [] =
      rapid_succession_body df e [] @ rapid_succession_loop df es []"
    using rapid_succession_loop_append [of df es "rapid_succession_body df e []"] by simp
  with Cons show ?case
    by (auto dest: rapid_succession_body_type simp del: rapid_succession_loop.simps)
qed

lemma round_number_bias_type:
  "p \<in> set (round_number_bias df []) \<Longrightarrow> p_type p = ''round_number_bias''"
  by (auto simp: round_number_bias_def Let_def split: if_splits)

lemma structuring_detection_type:
  "p \<in> set (structuring_detection df []) \<Longrightarrow> p_type p = ''potential_structuring''"
  by (auto simp: structuring_detection_def Let_def split: if_splits)

lemma filter_False_set: "(\<And>p. p \<in> set ps \<Longrightarrow> \<not> P p) \<Longrightarrow> filter P ps = []"
  by (induction ps) auto


lemma length_filter_sort_values:
  "length (filter P (sort_values df)) = length (filter P df)"
  by (simp add: sort_values_def filter_sort)


lemma rapid_succession_loop_no_other:
  "t \<noteq> ''rapid_succession'' \<Longrightarrow>
   filter (\<lambda>p. p_type p = t) (rapid_succession_loop df es []) = []"
  by (rule filter_False_set) (auto dest: rapid_succession_loop_type)


lemma round_half_even_nonneg: "0 \<le> y \<Longrightarrow> 0 \<le> round_half_even y"
  unfolding round_half_even_def Let_def by (auto simp: add_nonneg_nonneg)

lemma round_half_even_le: "y \<le> of_int n \<Longrightarrow> round_half_even y \<le> n"
proof -
  assume y: "y \<le> of_int n"
  have f: "of_int \<lfloor>y\<rfloor> \<le> y" by simp
  with y have le: "\<lfloor>y\<rfloor> \<le> n" by linarith
  have "\<lfloor>y\<rfloor> < n" if "1 / 2 \<le> y - of_int \<lfloor>y\<rfloor>"
  proof (rule ccontr)
    assume "\<not> \<lfloor>y\<rfloor> < n"
    with le have "\<lfloor>y\<rfloor> = n" by simp
    with y that show False by simp
  qed
  with le show ?thesis
    unfolding round_half_even_def Let_def by (auto simp: not_less)
qed



lemma py_round_unit: "0 \<le> x \<Longrightarrow> x \<le> 1 \<Longrightarrow> 0 \<le> py_round x n \<and> py_round x n \<le> 1"
proof -
  assume x: "0 \<le> x" "x \<le> 1"
  then have "0 \<le> x * 10 ^ n" by simp
  then have lo: "0 \<le> round_half_even (x * 10 ^ n)"
    by (rule round_half_even_nonneg)
  from x have "x * 10 ^ n \<le> of_int (10 ^ n)"
    by (simp add: mult_left_le_one_le)
  then have hi: "round_half_even (x * 10 ^ n) \<le> 10 ^ n"
    by (rule round_half_even_le)
  from hi have "(of_int (round_half_even (x * 10 ^ n)) :: real) \<le> of_int (10 ^ n)"
    by (simp only: of_int_le_iff)
  with lo show ?thesis
    by (simp add: py_round_def divide_le_eq)
qed

lemma sum_list_bounds:
  "\<forall>x \<in> set xs. a \<le> x \<and> x \<le> b \<Longrightarrow>
   a * real (length xs) \<le> sum_list xs \<and> sum_list xs \<le> b * real (length xs)"
  by (induction xs) (auto simp: algebra_simps)

lemma np_mean_bounds:
  assumes "xs \<noteq> []" and "\<forall>x \<in> set xs. a \<le> x \<and> x \<le> b"
  shows "a \<le> np_mean xs \<and> np_mean xs \<le> b"
proof -
  from assms(1) have pos: "0 < real (length xs)" by simp
  from sum_list_bounds [OF assms(2)] pos show ?thesis
    by (simp add: np_mean_def pos_le_divide_eq pos_divide_le_eq)
qed

lemma calculate_overall_risk_bounds:
  assumes "ps \<noteq> []" and "\<forall>p \<in> set ps. a \<le> p_risk_score p \<and> p_risk_score p \<le> b"
  shows "a \<le> calculate_overall_risk ps \<and> calculate_overall_risk ps \<le> b"
  using assms np_mean_bounds [of "map p_risk_score ps" a b]
  by (simp add: calculate_overall_risk_def)

lemma rapid_succession_body_score:
  "p \<in> set (rapid_succession_body df e []) \<Longrightarrow>
   3 \<le> p_count p \<and> p_risk_score p = min 0.9 (real (p_count p) * 0.2)"
  by (auto simp: rapid_succession_body_def Let_def split: if_splits)

lemma rapid_succession_loop_score:
  "p \<in> set (rapid_succession_loop df es []) \<Longrightarrow>
   3 \<le> p_count p \<and> p_risk_score p = min 0.9 (real (p_count p) * 0.2)"
proof (induction es)
  case Nil
  then show ?case by simp
next
  case (Cons e es)
  have "rapid_succession_loop df (e # es) [] =
      rapid_succession_body df e [] @ rapid_succession_loop df es []"
    using rapid_succession_loop_append [of df es "rapid_succession_body df e []"] by simp
  with Cons show ?case
    by (auto dest: rapid_succession_body_score simp del: rapid_succession_loop.simps)
qed

lemma round_number_bias_score:
  "p \<in> set (round_number_bias df []) \<Longrightarrow> p_risk_score p = 0.6"
  by (auto simp: round_number_bias_def Let_def split: if_splits)

lemma structuring_detection_score:
  "p \<in> set (structuring_detection df []) \<Longrightarrow> p_risk_score p = 0.8"
  by (auto simp: structuring_detection_def Let_def split: if_splits)

lemma detect_patterns_cases:
  assumes "p \<in> set (detect_patterns transactions)"
  shows "(p_type p = ''rapid_succession'' \<and> 3 \<le> p_count p \<and>
          p_risk_score p = min 0.9 (real (p_count p) * 0.2)) \<or>
         (p_type p = ''round_number_bias'' \<and> p_risk_score p = 0.6) \<or>
         (p_type p = ''potential_structuring'' \<and> p_risk_score p = 0.8)"
proof -
  let ?df = "sort_values transactions"
  from assms consider
      "p \<in> set (rapid_succession_loop ?df (unique (map sender_id ?df)) [])"
    | "p \<in> set (round_number_bias ?df [])"
    | "p \<in> set (structuring_detection ?df [])"
    by (auto simp: detect_patterns_split)
  then show ?thesis
  proof cases
    case 1
    from rapid_succession_loop_type [OF 1] rapid_succession_loop_score [OF 1]
    show ?thesis by blast
  next
    case 2
    from round_number_bias_type [OF 2] round_number_bias_score [OF 2]
    show ?thesis by blast
  next
    case 3
    from structuring_detection_type [OF 3] structuring_detection_score [OF 3]
    show ?thesis by blast
  qed
qed

lemma rapid_score_range:
  "3 \<le> n \<Longrightarrow> 0.6 \<le> min 0.9 (real n * 0.2) \<and> min 0.9 (real n * 0.2) \<le> (0.9 :: real)"
proof -
  assume "3 \<le> n"
  then have "3 \<le> real n" by simp
  then show ?thesis by (simp add: min_def)
qed

lemma detect_patterns_score_range:
  "p \<in> set (detect_patterns transactions) \<Longrightarrow> 0.6 \<le> p_risk_score p \<and> p_risk_score p \<le> 0.9"
  using detect_patterns_cases [of p transactions] rapid_score_range [of "p_count p"]
  by auto

lemma execute_query_mixed_five:
  "execute_query mixed_five (wide_request) = mixed_five"
  by (simp add: execute_query_def mixed_five_def wide_request_def request_of_def)



lemma analyze_suspicious_patterns_Inr:
  assumes "analyze_suspicious_patterns store request now1 now2 = Inr r"
  obtains (empty) rows where "store = Inr rows" and "execute_query rows request = []"
      and "patterns_detected r = []" and "risk_score r = 0" and "recommendations r = []"
      and "total_entities r = 0" and "flagged_entities r = 0"
      and "suspicious_transactions r = 0"
    | (analysed) rows where "store = Inr rows" and "execute_query rows request \<noteq> []"
      and "patterns_detected r = detect_patterns (execute_query rows request)"
      and "risk_score r = py_round (calculate_overall_risk (patterns_detected r)) 3"
      and "recommendations r =
        generate_recommendations (calculate_overall_risk (patterns_detected r))
          (patterns_detected r)"
proof (cases store)
  case (Inl e)
  with assms show thesis
    by (simp add: analyze_suspicious_patterns_def)
next
  case (Inr rows)
  show thesis
  proof (cases "execute_query rows request = []")
    case True
    with assms Inr have "r = \<lparr>analysis_id = ''batch_'' @ strftime now1,
        res_analysis_type = ''suspicious_patterns'',
        res_start_date = start_date request, res_end_date = end_date request,
        total_entities = 0, flagged_entities = 0, suspicious_transactions = 0,
        risk_score = 0, patterns_detected = [], recommendations = [],
        created_at = now2\<rparr>"
      by (simp add: analyze_suspicious_patterns_def)
    then show thesis
      using Inr True by (intro empty [of rows]) simp_all
  next
    case False
    with assms Inr have "r = \<lparr>analysis_id = ''batch_'' @ strftime now1,
        res_analysis_type = ''suspicious_patterns'',
        res_start_date = start_date request, res_end_date = end_date request,
        total_entities = length (unique (map sender_id (execute_query rows request))),
        flagged_entities =
          card (set (map p_entity_id
                       (filter (\<lambda>p. p_entity_id p \<noteq> None)
                          (detect_patterns (execute_query rows request))))),
        suspicious_transactions = length (execute_query rows request),
        risk_score =
          py_round (calculate_overall_risk (detect_patterns (execute_query rows request))) 3,
        patterns_detected = detect_patterns (execute_query rows request),
        recommendations =
          generate_recommendations
            (calculate_overall_risk (detect_patterns (execute_query rows request)))
            (detect_patterns (execute_query rows request)),
        created_at = now2\<rparr>"
      by (simp add: analyze_suspicious_patterns_def Let_def)
    then show thesis
      using Inr False by (intro analysed [of rows]) simp_all
  qed
qed

lemma calculate_overall_risk_Nil: "calculate_overall_risk [] = 0"
  by (simp add: calculate_overall_risk_def)

lemma generate_recommendations_zero: "generate_recommendations 0 [] = []"
  by (simp add: generate_recommendations_def)


lemma analyze_suspicious_patterns_recommendations:
  assumes "analyze_suspicious_patterns store request now1 now2 = Inr r"
  shows "recommendations r =
    generate_recommendations (calculate_overall_risk (patterns_detected r)) (patterns_detected r)"
  using assms
  by (cases rule: analyze_suspicious_patterns_Inr)
    (simp_all add: calculate_overall_risk_Nil generate_recommendations_zero)

lemma execute_query_inverted:
  "end_date request < start_date request \<Longrightarrow> execute_query rows request = []"
  unfolding execute_query_def by (rule filter_False_set) auto

lemma analyze_suspicious_patterns_empty:
  "execute_query rows request = [] \<Longrightarrow>
   analyze_suspicious_patterns (Inr rows) request now1 now2 =
   Inr \<lparr>analysis_id = ''batch_'' @ strftime now1,
        res_analysis_type = ''suspicious_patterns'',
        res_start_date = start_date request,
        res_end_date = end_date request,
        total_entities = 0,
        flagged_entities = 0,
        suspicious_transactions = 0,
        risk_score = 0,
        patterns_detected = [],
        recommendations = [],
        created_at = now2\<rparr>"
  by (simp add: analyze_suspicious_patterns_def)

lemma detect_patterns_overall_risk:
  assumes "detect_patterns transactions \<noteq> []"
  shows "0.6 \<le> calculate_overall_risk (detect_patterns transactions) \<and>
         calculate_overall_risk (detect_patterns transactions) \<le> 0.9"
  using assms
  by (intro calculate_overall_risk_bounds) (auto dest: detect_patterns_score_range)

lemma detect_patterns_overall_risk_unit:
  "0 \<le> calculate_overall_risk (detect_patterns transactions) \<and>
   calculate_overall_risk (detect_patterns transactions) \<le> 1"
proof (cases "detect_patterns transactions = []")
  case True
  then show ?thesis by (simp add: calculate_overall_risk_Nil)
next
  case False
  from detect_patterns_overall_risk [OF False] show ?thesis by simp
qed

lemma detect_patterns_mixed_five_full:
  "map (\<lambda>p. (p_type p, p_entity_id p, p_count p, p_percentage p, p_risk_score p))
     (detect_patterns mixed_five) =
   [(''rapid_succession'', Some ''S1'', 4, None, 0.8),
    (''round_number_bias'', None, 1, Some 20, 0.6),
    (''potential_structuring'', None, 1, None, 0.8)]"
  by (simp add: detect_patterns_def mixed_five_def sort_values_def unique_def
      rapid_succession_body_def total_seconds_def lt_300_def round_number_bias_def
      structuring_detection_def structuring_threshold_def py_mod_def Let_def
      py_round_def round_half_even_def)

lemma analyze_suspicious_patterns_mixed_five:
  "\<exists>r. analyze_suspicious_patterns (Inr mixed_five) wide_request now1 now2 = Inr r \<and>
        patterns_detected r = detect_patterns mixed_five"
proof -
  have "mixed_five \<noteq> []"
    by (simp add: mixed_five_def)
  then show ?thesis
    by (simp add: analyze_suspicious_patterns_def execute_query_mixed_five Let_def)
qed

section \<open>The claims\<close>




text \<open>
  C2. Structuring band: for every transaction set, the patterns of type
  \<^verbatim>\<open>potential_structuring\<close> are exactly one pattern, with risk score 0.8 and with the
  number of transactions whose amount lies in \<open>[10000 * 0.9, 10000)\<close> as count, when this
  number is greater than 0, and none otherwise.
\<close>

theorem structuring_band:
  "filter (\<lambda>p. p_type p = ''potential_structuring'') (detect_patterns transactions) =
   (let n = length (filter (\<lambda>t. 10000 * 0.9 \<le> amount t \<and> amount t < 10000) transactions)
    in if 0 < n
       then [\<lparr>p_type = ''potential_structuring'', p_entity_id = None, p_count = n,
              p_percentage = None, p_risk_score = 0.8,
              p_description =
                str_nat n @ '' transactions just below $'' @ str_nat 10000 @ '' threshold''\<rparr>]
       else [])"
proof -
  let ?df = "sort_values transactions"
  let ?P = "\<lambda>p. p_type p = ''potential_structuring''"
  have rapid: "filter ?P (rapid_succession_loop ?df (unique (map sender_id ?df)) []) = []"
    by (rule rapid_succession_loop_no_other) simp
  have round: "filter ?P (round_number_bias ?df []) = []"
    by (rule filter_False_set, drule round_number_bias_type, simp)
  have own: "filter ?P (structuring_detection ?df []) = structuring_detection ?df []"
    by (simp add: structuring_detection_def Let_def)
  have "filter ?P (detect_patterns transactions) = structuring_detection ?df []"
    by (simp only: detect_patterns_split filter_append rapid round own append_Nil)
  also have "\<dots> =
      (let n = length (filter (\<lambda>t. 10000 * 0.9 \<le> amount t \<and> amount t < 10000) ?df)
       in if 0 < n
          then [\<lparr>p_type = ''potential_structuring'', p_entity_id = None, p_count = n,
                 p_percentage = None, p_risk_score = 0.8,
                 p_description =
                   str_nat n @ '' transactions just below $'' @ str_nat 10000 @
                   '' threshold''\<rparr>]
          else [])"
    by (simp add: structuring_detection_def structuring_threshold_def Let_def)
  finally show ?thesis
    by (simp only: length_filter_sort_values)
qed

text \<open>
  An amount of exactly 9000 counts; amounts of exactly 10000 and of 8999.99 do not.
\<close>

theorem structuring_band_witness:
  "(\<exists>p. filter (\<lambda>p. p_type p = ''potential_structuring'')
           (detect_patterns (one_of_amount 9000)) = [p] \<and> p_count p = 1 \<and> p_risk_score p = 0.8) \<and>
   filter (\<lambda>p. p_type p = ''potential_structuring'') (detect_patterns (one_of_amount 10000)) = [] \<and>
   filter (\<lambda>p. p_type p = ''potential_structuring'') (detect_patterns (one_of_amount 8999.99)) = []"
  using structuring_band [of "one_of_amount 9000"] structuring_band [of "one_of_amount 10000"]
    structuring_band [of "one_of_amount 8999.99"]
  by (simp add: one_of_amount_def)





text \<open>
  C5. Recommendations: for every overall risk and pattern list the recommendations are,
  in this order, the immediate-investigation line if and only if the risk exceeds 0.7,
  otherwise the enhanced-monitoring line if and only if the risk exceeds 0.5, then the
  rapid-transaction line if and only if some pattern has the type
  \<^verbatim>\<open>rapid_succession\<close>, then the structuring line if and only if some pattern has the type
  \<^verbatim>\<open>potential_structuring\<close>; nothing stands for a line that is left out, and the two
  risk lines never appear together.
\<close>

theorem recommendation_generation:
  "generate_recommendations overall_risk patterns =
     (if 0.7 < overall_risk
      then [''Immediate investigation recommended for high-risk patterns'']
      else if 0.5 < overall_risk
      then [''Enhanced monitoring suggested for identified entities'']
      else []) @
     (if \<exists>p \<in> set patterns. p_type p = ''rapid_succession''
      then [''Review rapid transaction entities for potential automation'']
      else []) @
     (if \<exists>p \<in> set patterns. p_type p = ''potential_structuring''
      then [''Investigate potential structuring activities'']
      else []) \<and>
   (''Immediate investigation recommended for high-risk patterns''
      \<in> set (generate_recommendations overall_risk patterns) \<longleftrightarrow> 0.7 < overall_risk) \<and>
   (''Enhanced monitoring suggested for identified entities''
      \<in> set (generate_recommendations overall_risk patterns) \<longleftrightarrow>
    \<not> 0.7 < overall_risk \<and> 0.5 < overall_risk) \<and>
   (''Review rapid transaction entities for potential automation''
      \<in> set (generate_recommendations overall_risk patterns) \<longleftrightarrow>
    (\<exists>p \<in> set patterns. p_type p = ''rapid_succession'')) \<and>
   (''Investigate potential structuring activities''
      \<in> set (generate_recommendations overall_risk patterns) \<longleftrightarrow>
    (\<exists>p \<in> set patterns. p_type p = ''potential_structuring'')) \<and>
   \<not> (''Immediate investigation recommended for high-risk patterns''
        \<in> set (generate_recommendations overall_risk patterns) \<and>
      ''Enhanced monitoring suggested for identified entities''
        \<in> set (generate_recommendations overall_risk patterns))"
  by (simp add: generate_recommendations_def Let_def list_ex_iff)

text \<open>
  A risk of 0.75 gives the immediate-investigation line alone of the two risk lines; a
  risk of exactly 0.7 gives the enhanced-monitoring line and a risk of exactly 0.5 none.
\<close>

theorem recommendation_generation_witness:
  "generate_recommendations 0.75 (detect_patterns mixed_five) =
     [''Immediate investigation recommended for high-risk patterns'',
      ''Review rapid transaction entities for potential automation'',
      ''Investigate potential structuring activities''] \<and>
   generate_recommendations 0.75 [] =
     [''Immediate investigation recommended for high-risk patterns''] \<and>
   generate_recommendations 0.7 [] =
     [''Enhanced monitoring suggested for identified entities''] \<and>
   generate_recommendations 0.5 [] = []"
proof -
  have t: "map p_type (detect_patterns mixed_five) =
      [''rapid_succession'', ''round_number_bias'', ''potential_structuring'']"
    by (simp add: detect_patterns_def mixed_five_def sort_values_def unique_def
        rapid_succession_body_def total_seconds_def lt_300_def round_number_bias_def
        structuring_detection_def structuring_threshold_def py_mod_def Let_def)
  have m: "(\<exists>p \<in> set ps. p_type p = t) \<longleftrightarrow> t \<in> set (map p_type ps)" for ps t
    by auto
  show ?thesis
    using recommendation_generation [of "0.75" "detect_patterns mixed_five", THEN conjunct1]
      recommendation_generation [of "0.75" "[]", THEN conjunct1]
      recommendation_generation [of "0.7" "[]", THEN conjunct1]
      recommendation_generation [of "0.5" "[]", THEN conjunct1]
    by (simp add: m t)
qed

text \<open>
  C6. Empty input: whenever the query selects no transaction, the analysis succeeds with
  the zero-valued result: no entities, no flagged entities, no suspicious transactions,
  risk score 0.0, no patterns and no recommendations. The result is the one written in
  the early return; no pattern of any rule enters it.
\<close>

theorem empty_input_short_circuit:
  "execute_query rows request = [] \<Longrightarrow>
   analyze_suspicious_patterns (Inr rows) request now1 now2 =
   Inr \<lparr>analysis_id = ''batch_'' @ strftime now1,
        res_analysis_type = ''suspicious_patterns'',
        res_start_date = start_date request,
        res_end_date = end_date request,
        total_entities = 0,
        flagged_entities = 0,
        suspicious_transactions = 0,
        risk_score = 0.0,
        patterns_detected = [],
        recommendations = [],
        created_at = now2\<rparr>"
  by (simp add: analyze_suspicious_patterns_empty)

text \<open>A store whose five rows all lie before the requested range.\<close>

theorem empty_input_short_circuit_witness:
  "execute_query mixed_five late_request = [] \<and>
   analyze_suspicious_patterns (Inr mixed_five) late_request noon midnight =
   Inr \<lparr>analysis_id = ''batch_'' @ strftime noon,
        res_analysis_type = ''suspicious_patterns'',
        res_start_date = 600 * 10 ^ 9,
        res_end_date = 700 * 10 ^ 9,
        total_entities = 0,
        flagged_entities = 0,
        suspicious_transactions = 0,
        risk_score = 0.0,
        patterns_detected = [],
        recommendations = [],
        created_at = midnight\<rparr>"
proof -
  have q: "execute_query mixed_five late_request = []"
    by (simp add: execute_query_def mixed_five_def late_request_def request_of_def)
  show ?thesis
    using empty_input_short_circuit [OF q, of noon midnight] q
    by (simp add: late_request_def request_of_def)
qed

text \<open>
  C7, as stated: a request whose end date is earlier than its start date is rejected
  before any fetch and never succeeds. The request model constrains only
  \<^verbatim>\<open>analysis_type\<close>, and the service does not compare the dates. With a working store the
  request below succeeds with the zero-valued result; with a failing store the same
  request ends in the HTTP 500 of the failed fetch, so the fetch was attempted.
\<close>

theorem inverted_range_counterexample:
  "end_date inverted_request < start_date inverted_request \<and>
   analysis_type_regex (analysis_type inverted_request) \<and>
   run_batch_analysis (Inr mixed_five) inverted_request noon midnight =
   Inr \<lparr>analysis_id = ''batch_'' @ strftime noon,
        res_analysis_type = ''suspicious_patterns'',
        res_start_date = 500 * 10 ^ 9,
        res_end_date = 0,
        total_entities = 0,
        flagged_entities = 0,
        suspicious_transactions = 0,
        risk_score = 0.0,
        patterns_detected = [],
        recommendations = [],
        created_at = midnight\<rparr> \<and>
   run_batch_analysis (Inl ''connection refused'') inverted_request noon midnight =
   Inl (HTTPException 500 ''Analysis failed: connection refused'')"
proof -
  have q: "execute_query mixed_five inverted_request = []"
    by (rule execute_query_inverted) (simp add: inverted_request_def request_of_def)
  show ?thesis
    by (simp add: run_batch_analysis_def analyze_suspicious_patterns_empty [OF q]
        analysis_type_regex_def)
      (simp add: inverted_request_def request_of_def analyze_suspicious_patterns_def)
qed

text \<open>
  C7, amended: a request for \<^verbatim>\<open>suspicious_patterns\<close> whose end date is earlier than its
  start date is not rejected. The query runs on the inverted range and selects no row, so
  a working store gives the zero-valued success result; a failing store gives the HTTP
  500 of the failed fetch.
\<close>

theorem inverted_range_not_rejected:
  "end_date request < start_date request \<Longrightarrow>
   analysis_type request = ''suspicious_patterns'' \<Longrightarrow>
   run_batch_analysis (Inr rows) request now1 now2 =
   Inr \<lparr>analysis_id = ''batch_'' @ strftime now1,
        res_analysis_type = ''suspicious_patterns'',
        res_start_date = start_date request,
        res_end_date = end_date request,
        total_entities = 0,
        flagged_entities = 0,
        suspicious_transactions = 0,
        risk_score = 0.0,
        patterns_detected = [],
        recommendations = [],
        created_at = now2\<rparr> \<and>
   run_batch_analysis (Inl e) request now1 now2 =
   Inl (HTTPException 500 (''Analysis failed: '' @ e))"
  by (simp add: run_batch_analysis_def execute_query_inverted analyze_suspicious_patterns_empty)
    (simp add: analyze_suspicious_patterns_def)

theorem inverted_range_not_rejected_witness:
  "end_date inverted_request < start_date inverted_request \<and>
   analysis_type inverted_request = ''suspicious_patterns'' \<and>
   (\<exists>r. run_batch_analysis (Inr mixed_five) inverted_request noon midnight = Inr r \<and>
        patterns_detected r = [] \<and> risk_score r = 0) \<and>
   (\<exists>x. run_batch_analysis (Inl ''timeout'') inverted_request noon midnight = Inl x)"
proof -
  have a: "end_date inverted_request < start_date inverted_request"
    and b: "analysis_type inverted_request = ''suspicious_patterns''"
    by (simp_all add: inverted_request_def request_of_def)
  show ?thesis
    using inverted_range_not_rejected [OF a b, of mixed_five noon midnight "''timeout''"] a b
    by simp
qed

text \<open>
  C8. Risk-score range: for every transaction set, every detected pattern has a risk
  score in \<open>[0, 1]\<close>: a \<^verbatim>\<open>rapid_succession\<close> pattern has a count of at least 3 and the
  score \<open>min 0.9 (count * 0.2)\<close>, which lies in \<open>[0.6, 0.9]\<close>, a \<^verbatim>\<open>round_number_bias\<close>
  pattern has 0.6 and a \<^verbatim>\<open>potential_structuring\<close> pattern 0.8, and there is no other
  type. The overall risk lies in \<open>[0, 1]\<close>, also after rounding to 3 decimals, and so do
  the risk score and the pattern scores of every result of the analysis.
\<close>

theorem risk_score_range:
  "(\<forall>p \<in> set (detect_patterns transactions).
      0 \<le> p_risk_score p \<and> p_risk_score p \<le> 1 \<and>
      (p_type p = ''rapid_succession'' \<and> 3 \<le> p_count p \<and>
       p_risk_score p = min 0.9 (real (p_count p) * 0.2) \<and>
       0.6 \<le> p_risk_score p \<and> p_risk_score p \<le> 0.9 \<or>
       p_type p = ''round_number_bias'' \<and> p_risk_score p = 0.6 \<or>
       p_type p = ''potential_structuring'' \<and> p_risk_score p = 0.8)) \<and>
   0 \<le> calculate_overall_risk (detect_patterns transactions) \<and>
   calculate_overall_risk (detect_patterns transactions) \<le> 1 \<and>
   0 \<le> py_round (calculate_overall_risk (detect_patterns transactions)) 3 \<and>
   py_round (calculate_overall_risk (detect_patterns transactions)) 3 \<le> 1 \<and>
   (analyze_suspicious_patterns store request now1 now2 = Inr r \<longrightarrow>
      0 \<le> risk_score r \<and> risk_score r \<le> 1 \<and>
      (\<forall>p \<in> set (patterns_detected r). 0 \<le> p_risk_score p \<and> p_risk_score p \<le> 1))"
proof (intro conjI ballI impI)
  fix p
  assume p: "p \<in> set (detect_patterns transactions)"
  from detect_patterns_score_range [OF p]
  show "0 \<le> p_risk_score p" and "p_risk_score p \<le> 1"
    by simp_all
  from detect_patterns_cases [OF p] detect_patterns_score_range [OF p]
  show "p_type p = ''rapid_succession'' \<and> 3 \<le> p_count p \<and>
       p_risk_score p = min 0.9 (real (p_count p) * 0.2) \<and>
       0.6 \<le> p_risk_score p \<and> p_risk_score p \<le> 0.9 \<or>
       p_type p = ''round_number_bias'' \<and> p_risk_score p = 0.6 \<or>
       p_type p = ''potential_structuring'' \<and> p_risk_score p = 0.8"
    by auto
next
  note u = detect_patterns_overall_risk_unit [of transactions]
  from u show "0 \<le> calculate_overall_risk (detect_patterns transactions)"
    and "calculate_overall_risk (detect_patterns transactions) \<le> 1"
    by simp_all
  from u py_round_unit [of "calculate_overall_risk (detect_patterns transactions)" 3]
  show "0 \<le> py_round (calculate_overall_risk (detect_patterns transactions)) 3"
    and "py_round (calculate_overall_risk (detect_patterns transactions)) 3 \<le> 1"
    by simp_all
next
  assume run: "analyze_suspicious_patterns store request now1 now2 = Inr r"
  then show "0 \<le> risk_score r"
  proof (cases rule: analyze_suspicious_patterns_Inr)
    case (empty rows)
    then show ?thesis by simp
  next
    case (analysed rows)
    with detect_patterns_overall_risk_unit [of "execute_query rows request"]
      py_round_unit [of "calculate_overall_risk (detect_patterns (execute_query rows request))" 3]
    show ?thesis by simp
  qed
  from run show "risk_score r \<le> 1"
  proof (cases rule: analyze_suspicious_patterns_Inr)
    case (empty rows)
    then show ?thesis by simp
  next
    case (analysed rows)
    with detect_patterns_overall_risk_unit [of "execute_query rows request"]
      py_round_unit [of "calculate_overall_risk (detect_patterns (execute_query rows request))" 3]
    show ?thesis by simp
  qed
  fix p
  assume p: "p \<in> set (patterns_detected r)"
  from run p have "0.6 \<le> p_risk_score p \<and> p_risk_score p \<le> 0.9"
    by (cases rule: analyze_suspicious_patterns_Inr) (auto dest: detect_patterns_score_range)
  then show "0 \<le> p_risk_score p" and "p_risk_score p \<le> 1"
    by simp_all
qed

text \<open>The five mixed transactions: a detected pattern and a result to which the bounds apply.\<close>

theorem risk_score_range_witness:
  "(\<exists>p \<in> set (detect_patterns mixed_five).
      p_type p = ''rapid_succession'' \<and> p_count p = 4 \<and> p_risk_score p = 0.8 \<and>
      0 \<le> p_risk_score p \<and> p_risk_score p \<le> 1) \<and>
   (\<exists>r. analyze_suspicious_patterns (Inr mixed_five) wide_request noon midnight = Inr r \<and>
        patterns_detected r \<noteq> [] \<and> 0 \<le> risk_score r \<and> risk_score r \<le> 1)"
proof -
  obtain r where r: "analyze_suspicious_patterns (Inr mixed_five) wide_request noon midnight = Inr r"
    and p: "patterns_detected r = detect_patterns mixed_five"
    using analyze_suspicious_patterns_mixed_five [of noon midnight] by blast
  note range = risk_score_range [of mixed_five "Inr mixed_five" wide_request noon midnight r]
  from range r have "0 \<le> risk_score r \<and> risk_score r \<le> 1"
    by (simp only: simp_thms)
  moreover from detect_patterns_mixed_five_full obtain q qs
    where q: "detect_patterns mixed_five = q # qs" "p_type q = ''rapid_succession''"
      "p_count q = 4" "p_risk_score q = 0.8"
    by (auto simp: map_eq_Cons_conv)
  then have "patterns_detected r \<noteq> []"
    by (simp add: p)
  moreover from range q have "\<exists>p \<in> set (detect_patterns mixed_five).
      p_type p = ''rapid_succession'' \<and> p_count p = 4 \<and> p_risk_score p = 0.8 \<and>
      0 \<le> p_risk_score p \<and> p_risk_score p \<le> 1"
    by (intro bexI [of _ q]) simp_all
  ultimately show ?thesis
    using r by (intro conjI exI [of _ r]) simp_all
qed



text \<open>
  C10. For every result of the analysis, the recommendations are empty if and only if no
  pattern was detected: a non-empty pattern list has an overall risk of at least 0.6,
  above 0.5, so one of the two risk lines heads the recommendations.
\<close>

theorem recommendations_empty_iff:
  "analyze_suspicious_patterns store request now1 now2 = Inr r \<Longrightarrow>
   (recommendations r = [] \<longleftrightarrow> patterns_detected r = []) \<and>
   (patterns_detected r \<noteq> [] \<longrightarrow>
      0.6 \<le> calculate_overall_risk (patterns_detected r) \<and>
      (hd (recommendations r) = ''Immediate investigation recommended for high-risk patterns'' \<or>
       hd (recommendations r) = ''Enhanced monitoring suggested for identified entities''))"
proof -
  assume run: "analyze_suspicious_patterns store request now1 now2 = Inr r"
  have recs: "recommendations r =
      generate_recommendations (calculate_overall_risk (patterns_detected r)) (patterns_detected r)"
    using run by (rule analyze_suspicious_patterns_recommendations)
  have risk: "0.6 \<le> calculate_overall_risk (patterns_detected r)" if "patterns_detected r \<noteq> []"
    using run
  proof (cases rule: analyze_suspicious_patterns_Inr)
    case (empty rows)
    with that show ?thesis by simp
  next
    case (analysed rows)
    with that detect_patterns_overall_risk [of "execute_query rows request"]
    show ?thesis by simp
  qed
  show ?thesis
  proof (cases "patterns_detected r = []")
    case True
    with recs show ?thesis
      by (simp add: calculate_overall_risk_Nil generate_recommendations_zero)
  next
    case False
    from risk [OF False] have "0.5 < calculate_overall_risk (patterns_detected r)"
      by simp
    with False risk [OF False] show ?thesis
      by (simp add: recs generate_recommendations_def Let_def)
  qed
qed

text \<open>
  A single transaction of the amount 1000: only \<^verbatim>\<open>round_number_bias\<close> fires, and the
  recommendations are the enhanced-monitoring line.
\<close>

theorem recommendations_empty_iff_witness:
  "\<exists>r. analyze_suspicious_patterns (Inr (one_of_amount 1000)) wide_request noon midnight = Inr r \<and>
        map p_type (patterns_detected r) = [''round_number_bias''] \<and>
        recommendations r = [''Enhanced monitoring suggested for identified entities'']"
proof -
  have q: "execute_query (one_of_amount 1000) wide_request = one_of_amount 1000"
    by (simp add: execute_query_def one_of_amount_def wide_request_def request_of_def)
  have d: "map p_type (detect_patterns (one_of_amount 1000)) = [''round_number_bias'']"
    "map p_risk_score (detect_patterns (one_of_amount 1000)) = [0.6]"
    by (simp_all add: detect_patterns_def one_of_amount_def sort_values_def unique_def
        rapid_succession_body_def round_number_bias_def structuring_detection_def
        structuring_threshold_def py_mod_def Let_def)
  have "one_of_amount 1000 \<noteq> []"
    by (simp add: one_of_amount_def)
  then have "\<exists>r. analyze_suspicious_patterns (Inr (one_of_amount 1000)) wide_request noon midnight =
        Inr r \<and> patterns_detected r = detect_patterns (one_of_amount 1000)"
    by (simp add: analyze_suspicious_patterns_def q Let_def)
  then obtain r where
    r: "analyze_suspicious_patterns (Inr (one_of_amount 1000)) wide_request noon midnight = Inr r"
    and p: "patterns_detected r = detect_patterns (one_of_amount 1000)"
    by blast
  from d p have ne: "patterns_detected r \<noteq> []"
    by auto
  from d p have no: "\<not> (\<exists>p \<in> set (patterns_detected r). p_type p = ''rapid_succession'')"
    "\<not> (\<exists>p \<in> set (patterns_detected r). p_type p = ''potential_structuring'')"
    by (auto simp: map_eq_Cons_conv)
  have mean: "calculate_overall_risk (patterns_detected r) = 0.6"
    using d(2) p by (simp add: calculate_overall_risk_def np_mean_def)
  have "recommendations r = [''Enhanced monitoring suggested for identified entities'']"
    using recommendations_empty_iff [OF r] ne no
      analyze_suspicious_patterns_recommendations [OF r]
    by (simp add: mean generate_recommendations_def list_ex_iff)
  with r d p show ?thesis
    by (intro exI [of _ r] conjI) simp_all
qed

end
